theory Spec2Isabelle
  imports Main "HOL-Library.AList" "HOL-Library.Char_ord" "HOL-Library.List_Lexorder"
begin

section \<open>Python values\<close>

text \<open>
  The stored objects, the filters and the keyword arguments of the EMSP backend are Python
  dicts with string keys and values of any type. The values modelled here are \<open>None\<close>,
  integers, strings and string-keyed dicts (bools and floats play no part in the operations
  below). A dict keeps its insertion order, so it is an association list: assigning to a
  key that exists replaces the value in place, assigning to a new key appends
  (\<open>AList.update\<close>), and \<open>del\<close> removes the entry (\<open>AList.delete\<close>).
\<close>

datatype pyval = PNone | PInt int | PStr string | PDict "(string \<times> pyval) list"

type_synonym pydict = "(string \<times> pyval) list"

text \<open>Truth value of a Python object, as \<open>or\<close> reads it.\<close>

fun truthy :: "pyval \<Rightarrow> bool" where
  "truthy PNone = False"
| "truthy (PInt n) = (n \<noteq> 0)"
| "truthy (PStr s) = (s \<noteq> [])"
| "truthy (PDict d) = (d \<noteq> [])"

definition py_or :: "pyval \<Rightarrow> pyval \<Rightarrow> pyval" where
  "py_or x y = (if truthy x then x else y)"

text \<open>A dict cannot be a dict key: hashing it raises \<open>TypeError\<close>.\<close>

fun hashable :: "pyval \<Rightarrow> bool" where
  "hashable (PDict d) = False"
| "hashable v = True"

text \<open>\<open>d.get(k, default)\<close>; \<open>d.get(k)\<close> is \<open>py_get d k PNone\<close>.\<close>

definition py_get :: "('k \<times> pyval) list \<Rightarrow> 'k \<Rightarrow> pyval \<Rightarrow> pyval" where
  "py_get d k dflt = (case map_of d k of None \<Rightarrow> dflt | Some v \<Rightarrow> v)"

text \<open>\<open>d.update(e)\<close>: the items of \<open>e\<close> are assigned one after the other.\<close>

definition dict_update :: "pydict \<Rightarrow> pydict \<Rightarrow> pydict" where
  "dict_update d e = fold (\<lambda>(k, v). AList.update k v) e d"

text \<open>
  \<open>xs[a:b]\<close> with integer bounds: a negative bound counts from the end, and both
  bounds are clipped to the list.
\<close>

definition slice_index :: "int \<Rightarrow> int \<Rightarrow> int" where
  "slice_index n i = (if i < 0 then max 0 (i + n) else min i n)"

definition py_slice :: "'a list \<Rightarrow> int \<Rightarrow> int \<Rightarrow> 'a list" where
  "py_slice xs a b =
     (let n = int (length xs); s = slice_index n a; e = slice_index n b
      in take (nat (e - s)) (drop (nat s) xs))"

datatype error = NotFoundOCPIError | KeyError | TypeError

section \<open>Authentication tokens (core/auth.py)\<close>

text \<open>
  \<open>ClientAuthenticator\<close> keeps two class-level lists. Every method is a class method that
  reads or mutates them, so the model passes the pair of lists as the state.
\<close>

record ClientAuthenticator =
  valid_tokens_a :: "string list"
  valid_tokens_c :: "string list"

definition initial_tokens :: ClientAuthenticator where
  "initial_tokens =
     \<lparr>valid_tokens_a = [''emsp_token_a_12345'', ''emsp_token_a_67890'',
                         ''emsp_development_token_a''],
      valid_tokens_c = [''cpo_token_c_abcdef'', ''cpo_token_c_ghijkl'',
                         ''cpo_development_token_c'', ''test_token_c_123'']\<rparr>"

definition get_valid_token_a :: "ClientAuthenticator \<Rightarrow> string list" where
  "get_valid_token_a s = valid_tokens_a s"

definition get_valid_token_c :: "ClientAuthenticator \<Rightarrow> string list" where
  "get_valid_token_c s = valid_tokens_c s"

text \<open>
  \<open>add_token_a\<close> and \<open>add_token_c\<close> are declared \<open>-> None\<close>: the result is the new
  state and the unit value. Each consults its own list only. The log lines are not
  modelled.
\<close>

definition add_token_a :: "ClientAuthenticator \<Rightarrow> string \<Rightarrow> ClientAuthenticator \<times> unit" where
  "add_token_a s token =
     (if token \<notin> set (valid_tokens_a s)
      then (s\<lparr>valid_tokens_a := valid_tokens_a s @ [token]\<rparr>, ())
      else (s, ()))"

definition add_token_c :: "ClientAuthenticator \<Rightarrow> string \<Rightarrow> ClientAuthenticator \<times> unit" where
  "add_token_c s token =
     (if token \<notin> set (valid_tokens_c s)
      then (s\<lparr>valid_tokens_c := valid_tokens_c s @ [token]\<rparr>, ())
      else (s, ()))"

text \<open>\<open>list.remove\<close> deletes the first occurrence.\<close>

definition remove_token_a :: "ClientAuthenticator \<Rightarrow> string \<Rightarrow> ClientAuthenticator \<times> bool" where
  "remove_token_a s token =
     (if token \<in> set (valid_tokens_a s)
      then (s\<lparr>valid_tokens_a := remove1 token (valid_tokens_a s)\<rparr>, True)
      else (s, False))"

definition remove_token_c :: "ClientAuthenticator \<Rightarrow> string \<Rightarrow> ClientAuthenticator \<times> bool" where
  "remove_token_c s token =
     (if token \<in> set (valid_tokens_c s)
      then (s\<lparr>valid_tokens_c := remove1 token (valid_tokens_c s)\<rparr>, True)
      else (s, False))"

text \<open>
  \<open>is_token_valid\<close> and \<open>get_token_info\<close> accept \<open>None\<close> as well as a string; neither
  has a raising branch, so both are total functions without an error result.
\<close>

definition is_token_valid :: "ClientAuthenticator \<Rightarrow> string option \<Rightarrow> bool" where
  "is_token_valid s token =
     (case token of
        None \<Rightarrow> False
      | Some t \<Rightarrow>
          (let tokens_a = get_valid_token_a s; tokens_c = get_valid_token_c s
           in t \<in> set tokens_a \<or> t \<in> set tokens_c))"

record token_info =
  type :: string
  valid :: bool
  description :: string

definition get_token_info :: "ClientAuthenticator \<Rightarrow> string option \<Rightarrow> token_info" where
  "get_token_info s token =
     (let tokens_a = get_valid_token_a s; tokens_c = get_valid_token_c s
      in if (case token of None \<Rightarrow> False | Some t \<Rightarrow> t \<in> set tokens_a)
         then \<lparr>type = ''TOKEN_A'', valid = True,
               description = ''EMSP authentication token for CPO systems''\<rparr>
         else if (case token of None \<Rightarrow> False | Some t \<Rightarrow> t \<in> set tokens_c)
         then \<lparr>type = ''TOKEN_C'', valid = True,
               description = ''CPO authentication token for EMSP system''\<rparr>
         else \<lparr>type = ''UNKNOWN'', valid = False,
               description = ''Invalid or unknown token''\<rparr>)"

text \<open>A caller's sequence of add and remove calls, run from left to right.\<close>

datatype token_op = AddA string | AddC string | RemoveA string | RemoveC string

fun token_step :: "ClientAuthenticator \<Rightarrow> token_op \<Rightarrow> ClientAuthenticator" where
  "token_step s (AddA t) = fst (add_token_a s t)"
| "token_step s (AddC t) = fst (add_token_c s t)"
| "token_step s (RemoveA t) = fst (remove_token_a s t)"
| "token_step s (RemoveC t) = fst (remove_token_c s t)"

definition run_token_ops :: "ClientAuthenticator \<Rightarrow> token_op list \<Rightarrow> ClientAuthenticator" where
  "run_token_ops s ops = foldl token_step s ops"

section \<open>The module store (core/crud.py)\<close>

text \<open>
  \<open>ModuleID\<close>, \<open>RoleEnum\<close> and \<open>Action\<close> are enums of the py_ocpi library. \<open>ModuleID\<close>
  has the nine members that \<open>_get_storage_key\<close> maps; \<open>Action\<close> has the six members
  that \<open>do\<close> names, and \<open>other_action\<close> stands for any member that reaches its last branch.
  The string value of an action is a parameter of \<open>do\<close>.
\<close>

datatype ModuleID = locations | sessions | cdrs | tariffs | commands | tokens
  | hub_client_info | charging_profile | credentials_and_registration

datatype RoleEnum = cpo | emsp | hub | nap | nsp | other | scsp

datatype Action = get_client_token | authorize_token | send_command
  | send_get_chargingprofile | send_delete_chargingprofile | send_update_charging_profile
  | other_action

text \<open>
  \<open>create\<close> stamps, stores and returns the dict object that the caller passes, and
  \<open>update\<close> changes the stored dict object in place and returns it. One dict object can
  therefore be reached from several places: from the caller, and from more than one id.
  The model keeps the dict objects in a heap of addresses; \<open>_storage\<close> maps a storage key
  to the dict of the module, which maps an object id to the address of the object. A dict
  that the caller passes to \<open>create\<close> or \<open>update\<close> is passed by its address.
\<close>

type_synonym ref = nat

type_synonym module_store = "(pyval \<times> ref) list"

record crud_state =
  storage :: "string \<rightharpoonup> module_store"
  heap :: "ref \<Rightarrow> pydict"

definition initial_storage :: "string \<rightharpoonup> module_store" where
  "initial_storage =
     map_of [(''locations'', []), (''sessions'', []), (''cdrs'', []), (''tariffs'', []),
             (''commands'', []), (''tokens'', []), (''hub_client_info'', []),
             (''charging_profiles'', []), (''credentials'', [])]"

fun get_storage_key :: "ModuleID \<Rightarrow> string" where
  "get_storage_key locations = ''locations''"
| "get_storage_key sessions = ''sessions''"
| "get_storage_key cdrs = ''cdrs''"
| "get_storage_key tariffs = ''tariffs''"
| "get_storage_key commands = ''commands''"
| "get_storage_key tokens = ''tokens''"
| "get_storage_key hub_client_info = ''hub_client_info''"
| "get_storage_key charging_profile = ''charging_profiles''"
| "get_storage_key credentials_and_registration = ''credentials''"

text \<open>\<open>get\<close> returns the stored object itself, that is, its address.\<close>

definition get :: "crud_state \<Rightarrow> ModuleID \<Rightarrow> RoleEnum \<Rightarrow> string \<Rightarrow> error + ref" where
  "get s module role obj_id =
     (let storage_key = get_storage_key module
      in case storage s storage_key of
           None \<Rightarrow> Inl KeyError
         | Some objs \<Rightarrow>
             (case map_of objs (PStr obj_id) of
                None \<Rightarrow> Inl NotFoundOCPIError
              | Some data \<Rightarrow> Inr data))"

text \<open>
  \<open>list\<close> reads \<open>offset\<close> and \<open>limit\<close> from the filters and nothing else. Adding the two
  and taking \<open>min\<close> with the count raises \<open>TypeError\<close> unless both are integers. The page
  is a new list of the stored objects.
\<close>

definition list :: "crud_state \<Rightarrow> ModuleID \<Rightarrow> RoleEnum \<Rightarrow> pydict \<Rightarrow> error + (ref list \<times> int \<times> bool)" where
  "list s module role filters =
     (let storage_key = get_storage_key module
      in case storage s storage_key of
           None \<Rightarrow> Inl KeyError
         | Some objs \<Rightarrow>
             (let all_objects = map snd objs
              in case (py_get filters ''offset'' (PInt 0), py_get filters ''limit'' (PInt 50)) of
                   (PInt offset, PInt limit) \<Rightarrow>
                     (let total_count = int (length all_objects);
                          start_idx = offset;
                          end_idx = min (offset + limit) total_count;
                          objects_list = py_slice all_objects start_idx end_idx;
                          is_last_page = (end_idx \<ge> total_count)
                      in Inr (objects_list, total_count, is_last_page))
                 | _ \<Rightarrow> Inl TypeError))"

text \<open>
  \<open>create\<close> takes the address of the caller's dict, the string of \<open>uuid.uuid4()\<close> and the
  ISO string of the current time. It writes \<open>id\<close> and \<open>last_updated\<close> into the caller's
  dict before it touches the storage, so the dict is stamped also when the assignment
  into the storage raises: the result is the state after the call together with the
  error or the returned object.
\<close>

definition create :: "crud_state \<Rightarrow> ModuleID \<Rightarrow> RoleEnum \<Rightarrow> ref \<Rightarrow> string \<Rightarrow> string \<Rightarrow> crud_state \<times> (error + ref)" where
  "create s module role data uuid4 now =
     (let storage_key = get_storage_key module;
          object_id = py_or (py_get (heap s data) ''id'' PNone) (PStr uuid4);
          h1 = (heap s)(data := AList.update ''id'' object_id (heap s data));
          h2 = h1(data := AList.update ''last_updated'' (PStr now) (h1 data));
          s1 = s\<lparr>heap := h2\<rparr>
      in case storage s storage_key of
           None \<Rightarrow> (s1, Inl KeyError)
         | Some objs \<Rightarrow>
             if hashable object_id
             then (s1\<lparr>storage := (storage s)(storage_key \<mapsto> AList.update object_id data objs)\<rparr>,
                   Inr data)
             else (s1, Inl TypeError))"

text \<open>
  \<open>update\<close> takes the address of the caller's dict with the new field values. It merges
  them into the stored object, stamps it, and assigns the same object to its id again.
\<close>

definition update :: "crud_state \<Rightarrow> ModuleID \<Rightarrow> RoleEnum \<Rightarrow> ref \<Rightarrow> string \<Rightarrow> string \<Rightarrow> crud_state \<times> (error + ref)" where
  "update s module role data obj_id now =
     (let storage_key = get_storage_key module
      in case storage s storage_key of
           None \<Rightarrow> (s, Inl KeyError)
         | Some objs \<Rightarrow>
             (case map_of objs (PStr obj_id) of
                None \<Rightarrow> (s, Inl NotFoundOCPIError)
              | Some existing_data \<Rightarrow>
                  (let h1 = (heap s)(existing_data :=
                              dict_update (heap s existing_data) (heap s data));
                       h2 = h1(existing_data :=
                              AList.update ''last_updated'' (PStr now) (h1 existing_data))
                   in (s\<lparr>heap := h2,
                          storage := (storage s)(storage_key \<mapsto>
                                       AList.update (PStr obj_id) existing_data objs)\<rparr>,
                       Inr existing_data))))"

definition delete :: "crud_state \<Rightarrow> ModuleID \<Rightarrow> RoleEnum \<Rightarrow> string \<Rightarrow> crud_state \<times> (error + unit)" where
  "delete s module role obj_id =
     (let storage_key = get_storage_key module
      in case storage s storage_key of
           None \<Rightarrow> (s, Inl KeyError)
         | Some objs \<Rightarrow>
             (case map_of objs (PStr obj_id) of
                None \<Rightarrow> (s, Inl NotFoundOCPIError)
              | Some data \<Rightarrow>
                  (s\<lparr>storage := (storage s)(storage_key \<mapsto> AList.delete (PStr obj_id) objs)\<rparr>,
                   Inr ())))"

text \<open>\<open>COMMAND_AWAIT_TIME\<close> of core/config.py.\<close>

definition COMMAND_AWAIT_TIME :: int where
  "COMMAND_AWAIT_TIME = 30"

text \<open>
  \<open>do\<close> takes the optional \<open>data\<close>, the keyword arguments and the string of
  \<open>uuid.uuid4()\<close>. No branch reads the storage or the token lists, and no branch raises.
\<close>

definition do :: "(Action \<Rightarrow> string) \<Rightarrow> ModuleID \<Rightarrow> RoleEnum option \<Rightarrow> Action \<Rightarrow> pydict option \<Rightarrow> pydict \<Rightarrow> string \<Rightarrow> pyval" where
  "do action_value module role action data kwargs uuid4 =
     (if action = get_client_token then
        PStr (''mock_client_token_'' @ take 8 uuid4)
      else if action = authorize_token then
        PDict [(''allowed'', PStr ''ALLOWED''),
               (''authorization_info'',
                PDict [(''allowed'', PStr ''ALLOWED''),
                       (''token'', py_get kwargs ''token'' (PStr ''unknown'')),
                       (''location'', py_get kwargs ''location'' PNone)])]
      else if action = send_command then
        (let command_id = uuid4
         in PDict [(''result'', PStr ''ACCEPTED''),
                   (''timeout'', PInt 30),
                   (''message'', PStr ''Command accepted for processing'')])
      else if action \<in> set [send_get_chargingprofile, send_delete_chargingprofile,
                               send_update_charging_profile] then
        PDict [(''result'', PStr ''ACCEPTED''),
               (''timeout'', PInt 30),
               (''message'', PStr (''Charging profile '' @ action_value action @ '' accepted''))]
      else
        PDict [(''result'', PStr ''UNKNOWN_ACTION'')])"

section \<open>Stored ids and a sample store\<close>

text \<open>
  \<open>create\<close> is the only operation that adds an id to a module, and the id it adds is
  either the truthy \<open>id\<close> of the data or a fresh UUID string, and it was hashed. So in
  every storage built by the operations from the initial one, all ids are truthy and
  hashable.
\<close>

definition ids_ok :: "module_store \<Rightarrow> bool" where
  "ids_ok objs = list_all (\<lambda>p. truthy (fst p) \<and> hashable (fst p)) objs"

definition storage_ok :: "(string \<rightharpoonup> module_store) \<Rightarrow> bool" where
  "storage_ok st = (\<forall>key objs. st key = Some objs \<longrightarrow> ids_ok objs)"

text \<open>
  A state with three locations, held at the addresses 1, 2 and 3, for the concrete
  instances below. The dicts at the addresses 4, 5 and 6 belong to a caller: new field
  values for an \<open>update\<close>, a new location with the id of a stored one for a
  \<open>create\<close>, and an \<open>update\<close> that gives a stored location the id of another one.
\<close>

definition example_locations :: module_store where
  "example_locations = [(PStr ''LOC001'', 1), (PStr ''LOC002'', 2), (PStr ''LOC003'', 3)]"

definition example_heap :: "ref \<Rightarrow> pydict" where
  "example_heap =
     (\<lambda>r. [])
      (1 := [(''id'', PStr ''LOC001''), (''name'', PStr ''Station 1''),
             (''last_updated'', PStr ''2024-01-01T00:00:00+00:00'')],
       2 := [(''id'', PStr ''LOC002''), (''name'', PStr ''Station 2''),
             (''last_updated'', PStr ''2024-01-02T00:00:00+00:00'')],
       3 := [(''id'', PStr ''LOC003''), (''name'', PStr ''Station 3''),
             (''last_updated'', PStr ''2024-01-03T00:00:00+00:00'')],
       4 := [(''address'', PStr ''Main St 5'')],
       5 := [(''id'', PStr ''LOC002''), (''name'', PStr ''Rebuilt'')],
       6 := [(''id'', PStr ''LOC002'')])"

definition example_state :: crud_state where
  "example_state =
     \<lparr>storage = initial_storage(''locations'' \<mapsto> example_locations), heap = example_heap\<rparr>"

text \<open>
  A state with no stored object and, at the address 0, a caller's dict for a new session.
\<close>

definition empty_state :: crud_state where
  "empty_state = \<lparr>storage = initial_storage, heap = (\<lambda>r. [])(0 := [(''id'', PStr ''S1'')])\<rparr>"

section \<open>Properties of the token lists\<close>

lemmas token_defs = add_token_a_def add_token_c_def remove_token_a_def remove_token_c_def
  get_valid_token_a_def get_valid_token_c_def



lemma token_step_keeps_a:
  "t \<in> set (valid_tokens_a s) \<Longrightarrow> op \<noteq> RemoveA t \<Longrightarrow>
   t \<in> set (valid_tokens_a (token_step s op))"
  by (cases op) (auto simp: token_defs)

lemma run_token_ops_keeps_a:
  "t \<in> set (valid_tokens_a s) \<Longrightarrow> RemoveA t \<notin> set ops \<Longrightarrow>
   t \<in> set (valid_tokens_a (run_token_ops s ops))"
  unfolding run_token_ops_def
proof (induction ops arbitrary: s)
  case Nil
  then show ?case by simp
next
  case (Cons op ops)
  from Cons.prems have "op \<noteq> RemoveA t" and rest: "RemoveA t \<notin> set ops" by auto
  with Cons.prems(1) have "t \<in> set (valid_tokens_a (token_step s op))"
    by (simp add: token_step_keeps_a)
  with rest show ?case using Cons.IH by simp
qed

lemma add_token_a_member: "t \<in> set (valid_tokens_a (fst (add_token_a s t)))"
  by (simp add: add_token_a_def)




text \<open>
  Claim C6, as stated: add is idempotent, and it returns whether the token was newly
  added. The second half fails: \<open>add_token_a\<close> returns the same value for a token that is
  new and for one that is already in the list.
\<close>

theorem add_result_counterexample:
  "''new_emsp_token_a_test'' \<notin> set (valid_tokens_a initial_tokens)
   \<and> ''emsp_token_a_12345'' \<in> set (valid_tokens_a initial_tokens)
   \<and> snd (add_token_a initial_tokens ''new_emsp_token_a_test'')
       = snd (add_token_a initial_tokens ''emsp_token_a_12345'')"
  by (simp add: initial_tokens_def)

text \<open>
  Claim C6, amended: for either class, adding a token that is already in the class's list
  is not an error and leaves both lists as they are; adding a token that is not there
  appends it; adding twice is the same as adding once. The call returns \<open>None\<close> in both
  cases.
\<close>

theorem add_idempotent:
  "(t \<in> set (valid_tokens_a s) \<longrightarrow> add_token_a s t = (s, ()))
   \<and> (t \<in> set (valid_tokens_c s) \<longrightarrow> add_token_c s t = (s, ()))
   \<and> (t \<notin> set (valid_tokens_a s) \<longrightarrow>
        fst (add_token_a s t) = s\<lparr>valid_tokens_a := valid_tokens_a s @ [t]\<rparr>)
   \<and> (t \<notin> set (valid_tokens_c s) \<longrightarrow>
        fst (add_token_c s t) = s\<lparr>valid_tokens_c := valid_tokens_c s @ [t]\<rparr>)
   \<and> add_token_a (fst (add_token_a s t)) t = add_token_a s t
   \<and> add_token_c (fst (add_token_c s t)) t = add_token_c s t"
  by (simp add: add_token_a_def add_token_c_def)

theorem add_idempotent_witness:
  "''emsp_token_a_12345'' \<in> set (valid_tokens_a initial_tokens)
   \<and> add_token_a initial_tokens ''emsp_token_a_12345'' = (initial_tokens, ())
   \<and> ''emsp_token_a_12345'' \<notin> set (valid_tokens_c initial_tokens)
   \<and> valid_tokens_c (fst (add_token_c initial_tokens ''emsp_token_a_12345''))
       = valid_tokens_c initial_tokens @ [''emsp_token_a_12345'']"
proof -
  have m: "''emsp_token_a_12345'' \<in> set (valid_tokens_a initial_tokens)"
    and n: "''emsp_token_a_12345'' \<notin> set (valid_tokens_c initial_tokens)"
    by (simp_all add: initial_tokens_def)
  show ?thesis
    using m n add_idempotent [of "''emsp_token_a_12345''" initial_tokens]
    by simp
qed

text \<open>
  Claim C7, as stated: validate is true exactly for the members of the two lists, a null or
  empty token is always invalid, a token added as Token A is valid and classified
  \<open>TOKEN_A\<close> until it is removed, and neither function throws for an unknown token. The
  part on the empty token fails: once the empty string has been added, it is valid.
\<close>

theorem empty_token_valid_counterexample:
  "is_token_valid (fst (add_token_a initial_tokens [])) (Some [])"
  by (simp add: is_token_valid_def token_defs initial_tokens_def)

text \<open>
  Claim C7, amended: \<open>is_token_valid\<close> is true exactly when the token is a string that is
  an element of the Token-A or the Token-C list (exact match); \<open>None\<close> is always invalid,
  and the empty string is invalid unless it is itself in a list; a token added with
  \<open>add_token_a\<close> is valid and classified \<open>TOKEN_A\<close> after any further calls that do not
  remove it from the Token-A list; for \<open>None\<close> and for a string in neither list,
  \<open>is_token_valid\<close> returns false and \<open>get_token_info\<close> returns the \<open>UNKNOWN\<close> record.
\<close>

theorem validate_classify:
  "(is_token_valid s tok \<longleftrightarrow>
      (\<exists>t. tok = Some t \<and> (t \<in> set (valid_tokens_a s) \<or> t \<in> set (valid_tokens_c s))))
   \<and> \<not> is_token_valid s None
   \<and> (RemoveA t \<notin> set ops \<longrightarrow>
        is_token_valid (run_token_ops (fst (add_token_a s t)) ops) (Some t)
        \<and> type (get_token_info (run_token_ops (fst (add_token_a s t)) ops) (Some t))
            = ''TOKEN_A'')
   \<and> (tok = None
        \<or> (\<exists>u. tok = Some u \<and> u \<notin> set (valid_tokens_a s) \<and> u \<notin> set (valid_tokens_c s)) \<longrightarrow>
        \<not> is_token_valid s tok
        \<and> get_token_info s tok = \<lparr>type = ''UNKNOWN'', valid = False,
                                    description = ''Invalid or unknown token''\<rparr>)"
proof -
  have a: "is_token_valid s tok \<longleftrightarrow>
      (\<exists>t. tok = Some t \<and> (t \<in> set (valid_tokens_a s) \<or> t \<in> set (valid_tokens_c s)))"
    by (cases tok) (simp_all add: is_token_valid_def token_defs)
  have b: "\<not> is_token_valid s None"
    by (simp add: is_token_valid_def)
  have c: "is_token_valid (run_token_ops (fst (add_token_a s t)) ops) (Some t)
        \<and> type (get_token_info (run_token_ops (fst (add_token_a s t)) ops) (Some t))
            = ''TOKEN_A''"
    if "RemoveA t \<notin> set ops"
  proof -
    have "t \<in> set (valid_tokens_a (run_token_ops (fst (add_token_a s t)) ops))"
      using add_token_a_member that by (rule run_token_ops_keeps_a)
    then show ?thesis
      by (simp add: is_token_valid_def get_token_info_def get_valid_token_a_def)
  qed
  have d: "\<not> is_token_valid s tok
        \<and> get_token_info s tok = \<lparr>type = ''UNKNOWN'', valid = False,
                                    description = ''Invalid or unknown token''\<rparr>"
    if "tok = None
        \<or> (\<exists>u. tok = Some u \<and> u \<notin> set (valid_tokens_a s) \<and> u \<notin> set (valid_tokens_c s))"
    using that
    by (auto simp: is_token_valid_def get_token_info_def get_valid_token_a_def
        get_valid_token_c_def)
  from a b c d show ?thesis by blast
qed

theorem validate_classify_witness:
  "RemoveA ''new_emsp_token_a_test''
     \<notin> set [AddC ''new_emsp_token_a_test'', RemoveC ''new_emsp_token_a_test'',
            RemoveA ''emsp_token_a_12345'']
   \<and> is_token_valid
        (run_token_ops (fst (add_token_a initial_tokens ''new_emsp_token_a_test''))
           [AddC ''new_emsp_token_a_test'', RemoveC ''new_emsp_token_a_test'',
            RemoveA ''emsp_token_a_12345''])
        (Some ''new_emsp_token_a_test'')
   \<and> ''invalid_token_xyz'' \<notin> set (valid_tokens_a initial_tokens)
   \<and> ''invalid_token_xyz'' \<notin> set (valid_tokens_c initial_tokens)
   \<and> \<not> is_token_valid initial_tokens (Some ''invalid_token_xyz'')"
proof -
  have h: "RemoveA ''new_emsp_token_a_test''
     \<notin> set [AddC ''new_emsp_token_a_test'', RemoveC ''new_emsp_token_a_test'',
            RemoveA ''emsp_token_a_12345'']"
    by simp
  have u: "''invalid_token_xyz'' \<notin> set (valid_tokens_a initial_tokens)
     \<and> ''invalid_token_xyz'' \<notin> set (valid_tokens_c initial_tokens)"
    by (simp add: initial_tokens_def)
  show ?thesis
    using h u validate_classify [of initial_tokens "Some ''invalid_token_xyz''"
        "''new_emsp_token_a_test''"
        "[AddC ''new_emsp_token_a_test'', RemoveC ''new_emsp_token_a_test'',
          RemoveA ''emsp_token_a_12345'']"]
    by simp
qed

text \<open>
  Claim C10: a token string that is in the Token-A and in the Token-C list at once is
  classified \<open>TOKEN_A\<close>, the Token-A list being looked at first, and is valid.
\<close>

theorem token_in_both_is_token_a:
  "t \<in> set (valid_tokens_a s) \<Longrightarrow> t \<in> set (valid_tokens_c s) \<Longrightarrow>
   get_token_info s (Some t) = \<lparr>type = ''TOKEN_A'', valid = True,
        description = ''EMSP authentication token for CPO systems''\<rparr>
   \<and> is_token_valid s (Some t)"
  by (simp add: get_token_info_def is_token_valid_def get_valid_token_a_def)

theorem token_in_both_is_token_a_witness:
  "''cpo_token_c_abcdef''
     \<in> set (valid_tokens_a (fst (add_token_a initial_tokens ''cpo_token_c_abcdef'')))
   \<and> ''cpo_token_c_abcdef''
     \<in> set (valid_tokens_c (fst (add_token_a initial_tokens ''cpo_token_c_abcdef'')))
   \<and> type (get_token_info (fst (add_token_a initial_tokens ''cpo_token_c_abcdef''))
        (Some ''cpo_token_c_abcdef'')) = ''TOKEN_A''
   \<and> is_token_valid (fst (add_token_a initial_tokens ''cpo_token_c_abcdef''))
        (Some ''cpo_token_c_abcdef'')"
proof -
  let ?s = "fst (add_token_a initial_tokens ''cpo_token_c_abcdef'')"
  have a: "''cpo_token_c_abcdef'' \<in> set (valid_tokens_a ?s)"
    and c: "''cpo_token_c_abcdef'' \<in> set (valid_tokens_c ?s)"
    by (simp_all add: add_token_a_def initial_tokens_def)
  show ?thesis
    using a c token_in_both_is_token_a [OF a c] by simp
qed

section \<open>Properties of the module store\<close>

lemma py_slice_page:
  assumes "0 \<le> off" and "0 \<le> lim"
  shows "py_slice xs off (min (off + lim) (int (length xs))) = take (nat lim) (drop (nat off) xs)"
proof (cases "off \<le> int (length xs)")
  case True
  show ?thesis
  proof (cases "off + lim \<le> int (length xs)")
    case True
    with assms \<open>off \<le> int (length xs)\<close> show ?thesis
      by (simp add: py_slice_def slice_index_def min_def)
  next
    case False
    with assms True have "length (drop (nat off) xs) \<le> nat lim" by simp
    with assms True False show ?thesis
      by (simp add: py_slice_def slice_index_def min_def nat_diff_distrib)
  qed
next
  case False
  with assms show ?thesis
    by (simp add: py_slice_def slice_index_def min_def)
qed

lemma map_of_dict_update:
  "k \<notin> fst ` set e \<Longrightarrow> map_of (dict_update d e) k = map_of d k"
  unfolding dict_update_def
proof (induction e arbitrary: d)
  case Nil
  then show ?case by simp
next
  case (Cons p e)
  obtain k' v' where p: "p = (k', v')" by (cases p)
  with Cons.prems have "k' \<noteq> k" and "k \<notin> fst ` set e" by auto
  then show ?case using Cons.IH [of "AList.update k' v' d"] p
    by (simp add: update_conv')
qed

lemma py_get_delete:
  "k \<noteq> k' \<Longrightarrow> py_get (AList.delete k' d) k dflt = py_get d k dflt"
  by (simp add: py_get_def delete_conv')

lemma ids_ok_iff: "ids_ok objs \<longleftrightarrow> (\<forall>k \<in> fst ` set objs. truthy k \<and> hashable k)"
  by (auto simp: ids_ok_def list_all_iff)

lemma ids_ok_update: "ids_ok objs \<Longrightarrow> truthy k \<Longrightarrow> hashable k \<Longrightarrow> ids_ok (AList.update k v objs)"
  by (simp add: ids_ok_iff dom_update)

lemma ids_ok_delete: "ids_ok objs \<Longrightarrow> ids_ok (AList.delete k objs)"
  by (auto simp: ids_ok_def list_all_iff AList.delete_eq)

lemma storage_ok_upd: "storage_ok st \<Longrightarrow> ids_ok objs \<Longrightarrow> storage_ok (st(key \<mapsto> objs))"
  by (simp add: storage_ok_def)

lemma map_of_update_other: "k' \<noteq> k \<Longrightarrow> map_of (AList.update k v al) k' = map_of al k'"
  by (simp add: update_conv')

lemma update_keys_present: "k \<in> fst ` set al \<Longrightarrow> map fst (AList.update k v al) = map fst al"
  by (simp add: update_keys)


lemma storage_ok_initial: "storage_ok initial_storage"
  by (auto simp: storage_ok_def initial_storage_def ids_ok_def split: if_splits)

lemma create_storage_ok:
  assumes "storage_ok (storage s)" and "uuid4 \<noteq> []"
  shows "storage_ok (storage (fst (create s module role data uuid4 now)))"
proof (cases "storage s (get_storage_key module)")
  case None
  with assms(1) show ?thesis by (simp add: create_def Let_def)
next
  case (Some objs)
  let ?oid = "py_or (py_get (heap s data) ''id'' PNone) (PStr uuid4)"
  have t: "truthy ?oid" using assms(2) by (simp add: py_or_def)
  from assms(1) Some have ok: "ids_ok objs" by (simp add: storage_ok_def)
  show ?thesis
  proof (cases "hashable ?oid")
    case True
    with ok t have "ids_ok (AList.update ?oid data objs)" by (simp add: ids_ok_update)
    with assms(1) have "storage_ok ((storage s)(get_storage_key module \<mapsto>
        AList.update ?oid data objs))"
      by (rule storage_ok_upd)
    with Some True show ?thesis by (simp add: create_def Let_def)
  next
    case False
    with Some assms(1) show ?thesis by (simp add: create_def Let_def)
  qed
qed

lemma update_storage_ok:
  assumes "storage_ok (storage s)"
  shows "storage_ok (storage (fst (update s module role data obj_id now)))"
proof (cases "storage s (get_storage_key module)")
  case None
  with assms show ?thesis by (simp add: update_def)
next
  case (Some objs)
  from assms Some have ok: "ids_ok objs" by (simp add: storage_ok_def)
  show ?thesis
  proof (cases "map_of objs (PStr obj_id)")
    case None
    with Some assms show ?thesis by (simp add: update_def)
  next
    case (Some r)
    then have "(PStr obj_id, r) \<in> set objs" by (rule map_of_SomeD)
    then have "PStr obj_id \<in> fst ` set objs" by force
    with ok have "truthy (PStr obj_id)" unfolding ids_ok_iff by blast
    with ok have "ids_ok (AList.update (PStr obj_id) r objs)" by (simp add: ids_ok_update)
    with assms have "storage_ok ((storage s)(get_storage_key module \<mapsto>
        AList.update (PStr obj_id) r objs))"
      by (rule storage_ok_upd)
    with Some \<open>storage s (get_storage_key module) = Some objs\<close> show ?thesis
      by (simp add: update_def Let_def)
  qed
qed

lemma delete_storage_ok:
  assumes "storage_ok (storage s)"
  shows "storage_ok (storage (fst (delete s module role obj_id)))"
proof (cases "storage s (get_storage_key module)")
  case None
  with assms show ?thesis by (simp add: delete_def)
next
  case (Some objs)
  from assms Some have "ids_ok objs" by (simp add: storage_ok_def)
  then have "ids_ok (AList.delete (PStr obj_id) objs)" by (rule ids_ok_delete)
  with assms have "storage_ok ((storage s)(get_storage_key module \<mapsto>
      AList.delete (PStr obj_id) objs))"
    by (rule storage_ok_upd)
  with Some assms show ?thesis
    by (cases "map_of objs (PStr obj_id)") (simp_all add: delete_def)
qed

lemma example_state_ok: "storage_ok (storage example_state)"
  unfolding example_state_def
  using storage_ok_upd [OF storage_ok_initial, of example_locations "''locations''"]
  by (simp add: ids_ok_def example_locations_def)

lemma example_state_locations:
  "storage example_state (get_storage_key locations) = Some example_locations"
  by (simp add: example_state_def)

text \<open>
  Claim C4: for every module and every list call whose offset and limit are non-negative
  integers, \<open>list\<close> returns at most \<open>limit\<close> items, takes 50 for a limit that the
  filters do not carry, reports the number of stored objects of the module as the total
  count, and \<open>is_last_page\<close> is true exactly when the offset plus the number of returned
  items reaches the total count. The page is the stored objects from position \<open>offset\<close>
  on, \<open>limit\<close> of them at most.
\<close>

theorem list_pagination:
  assumes "storage s (get_storage_key module) = Some objs"
    and "py_get filters ''offset'' (PInt 0) = PInt off" and "0 \<le> off"
    and "py_get filters ''limit'' (PInt 50) = PInt lim" and "0 \<le> lim"
  shows "\<exists>items is_last_page.
           list s module role filters = Inr (items, int (length objs), is_last_page)
           \<and> items = take (nat lim) (drop (nat off) (map snd objs))
           \<and> int (length items) \<le> lim
           \<and> (is_last_page \<longleftrightarrow> off + int (length items) \<ge> int (length objs))
           \<and> (map_of filters ''limit'' = None \<longrightarrow> lim = 50)"
proof -
  let ?all = "map snd objs"
  let ?items = "take (nat lim) (drop (nat off) ?all)"
  let ?last = "min (off + lim) (int (length objs)) \<ge> int (length objs)"
  have sl: "py_slice ?all off (min (off + lim) (int (length objs))) = ?items"
    using py_slice_page [OF assms(3) assms(5), of ?all] by simp
  have r: "list s module role filters = Inr (?items, int (length objs), ?last)"
    using assms(1,2,4) sl by (simp add: list_def Let_def)
  have len: "int (length ?items) \<le> lim"
    using assms(5) by simp
  have lp: "?last \<longleftrightarrow> off + int (length ?items) \<ge> int (length objs)"
    using assms(3,5) by (simp add: min_def) linarith
  have dflt: "map_of filters ''limit'' = None \<longrightarrow> lim = 50"
    using assms(4) by (auto simp: py_get_def)
  show ?thesis
  proof (intro exI conjI)
    show "list s module role filters = Inr (?items, int (length objs), ?last)" by (rule r)
    show "?items = take (nat lim) (drop (nat off) (map snd objs))" by (rule refl)
    show "int (length ?items) \<le> lim" by (rule len)
    show "?last \<longleftrightarrow> off + int (length ?items) \<ge> int (length objs)" by (rule lp)
    show "map_of filters ''limit'' = None \<longrightarrow> lim = 50" by (rule dflt)
  qed
qed

theorem list_pagination_witness:
  "storage example_state (get_storage_key locations) = Some example_locations
   \<and> py_get [(''offset'', PInt 1)] ''offset'' (PInt 0) = PInt 1 \<and> (0::int) \<le> 1
   \<and> py_get [(''offset'', PInt 1)] ''limit'' (PInt 50) = PInt 50 \<and> (0::int) \<le> 50
   \<and> map_of [(''offset'', PInt 1)] ''limit'' = None
   \<and> list example_state locations emsp [(''offset'', PInt 1)] = Inr ([2, 3], 3, True)"
proof -
  have b: "py_get [(''offset'', PInt 1)] ''offset'' (PInt 0) = PInt 1"
    and c: "py_get [(''offset'', PInt 1)] ''limit'' (PInt 50) = PInt 50"
    by (simp_all add: py_get_def)
  have l: "length example_locations = 3"
    "take 50 (drop (Suc 0) (map snd example_locations)) = [2, 3]"
    by (simp_all add: example_locations_def)
  show ?thesis
    using example_state_locations b c l
      list_pagination [where s = example_state and module = locations
        and objs = example_locations and filters = "[(''offset'', PInt 1)]"
        and off = 1 and lim = 50 and role = emsp]
    by auto
qed

text \<open>
  Claim C5, as stated: with \<open>date_from\<close> and \<open>date_to\<close> in the filters, every returned
  item has its \<open>last_updated\<close> inside the window, and items outside it are left out of the
  page and of the total count. It fails: a session created at 2020-06-01 is returned, and
  counted, by a list call that asks for the year 2023.
\<close>

theorem list_date_filters_counterexample:
  "snd (create empty_state sessions emsp 0 ''6fa459ea-ee8a-4ca4-894e-db77e160355e''
          ''2020-06-01T00:00:00+00:00'') = Inr 0
   \<and> heap (fst (create empty_state sessions emsp 0 ''6fa459ea-ee8a-4ca4-894e-db77e160355e''
          ''2020-06-01T00:00:00+00:00'')) 0
       = [(''id'', PStr ''S1''), (''last_updated'', PStr ''2020-06-01T00:00:00+00:00'')]
   \<and> ''2020-06-01T00:00:00+00:00'' < ''2023-01-01T00:00:00+00:00''
   \<and> list (fst (create empty_state sessions emsp 0 ''6fa459ea-ee8a-4ca4-894e-db77e160355e''
          ''2020-06-01T00:00:00+00:00'')) sessions emsp
        [(''date_from'', PStr ''2023-01-01T00:00:00+00:00''),
         (''date_to'', PStr ''2023-12-31T23:59:59+00:00'')]
     = Inr ([0], 1, True)"
  by (simp add: create_def list_def empty_state_def initial_storage_def py_get_def py_or_def
      py_slice_def slice_index_def Let_def)

text \<open>
  Claim C5, amended: \<open>list\<close> does not read \<open>date_from\<close> or \<open>date_to\<close>, nor the stored
  objects' fields. A call whose filters carry \<open>date_from\<close> or \<open>date_to\<close> returns what the
  same call without them returns; the result is the same whatever the stored objects
  contain, their \<open>last_updated\<close> included; and with an integer offset and limit the call
  returns the number of all stored objects of the module as the total count and the page
  \<open>all_objects[offset : min(offset + limit, total_count)]\<close> of all stored objects.
\<close>

theorem list_ignores_date_filters:
  "list s module role filters
     = list s module role (AList.delete ''date_from'' (AList.delete ''date_to'' filters))
   \<and> list (s\<lparr>heap := h\<rparr>) module role filters = list s module role filters
   \<and> (storage s (get_storage_key module) = Some objs
        \<and> py_get filters ''offset'' (PInt 0) = PInt off
        \<and> py_get filters ''limit'' (PInt 50) = PInt lim \<longrightarrow>
      list s module role filters
        = Inr (py_slice (map snd objs) off (min (off + lim) (int (length objs))),
               int (length objs),
               int (length objs) \<le> min (off + lim) (int (length objs))))"
proof (intro conjI impI)
  show "list s module role filters
     = list s module role (AList.delete ''date_from'' (AList.delete ''date_to'' filters))"
    by (cases "storage s (get_storage_key module)") (simp_all add: list_def py_get_delete)
  show "list (s\<lparr>heap := h\<rparr>) module role filters = list s module role filters"
    by (simp add: list_def)
next
  assume "storage s (get_storage_key module) = Some objs
        \<and> py_get filters ''offset'' (PInt 0) = PInt off
        \<and> py_get filters ''limit'' (PInt 50) = PInt lim"
  then show "list s module role filters
        = Inr (py_slice (map snd objs) off (min (off + lim) (int (length objs))),
               int (length objs),
               int (length objs) \<le> min (off + lim) (int (length objs)))"
    by (simp add: list_def Let_def)
qed

theorem list_ignores_date_filters_witness:
  "storage example_state (get_storage_key locations) = Some example_locations
   \<and> py_get [(''date_from'', PStr ''2023-01-01T00:00:00+00:00''), (''limit'', PInt 2),
             (''date_to'', PStr ''2023-12-31T23:59:59+00:00'')] ''offset'' (PInt 0) = PInt 0
   \<and> py_get [(''date_from'', PStr ''2023-01-01T00:00:00+00:00''), (''limit'', PInt 2),
             (''date_to'', PStr ''2023-12-31T23:59:59+00:00'')] ''limit'' (PInt 50) = PInt 2
   \<and> list example_state locations emsp
        [(''date_from'', PStr ''2023-01-01T00:00:00+00:00''), (''limit'', PInt 2),
         (''date_to'', PStr ''2023-12-31T23:59:59+00:00'')]
      = Inr ([1, 2], 3, False)
   \<and> list example_state locations emsp
        [(''date_from'', PStr ''2023-01-01T00:00:00+00:00''), (''limit'', PInt 2),
         (''date_to'', PStr ''2023-12-31T23:59:59+00:00'')]
      = list example_state locations emsp [(''limit'', PInt 2)]"
proof -
  let ?f = "[(''date_from'', PStr ''2023-01-01T00:00:00+00:00''), (''limit'', PInt 2),
             (''date_to'', PStr ''2023-12-31T23:59:59+00:00'')]"
  have b: "py_get ?f ''offset'' (PInt 0) = PInt 0"
    and c: "py_get ?f ''limit'' (PInt 50) = PInt 2"
    by (simp_all add: py_get_def)
  have l: "py_slice (map snd example_locations) 0 (min (0 + 2) (int (length example_locations)))
             = [1, 2]"
    "int (length example_locations) = 3"
    by (simp_all add: example_locations_def py_slice_def slice_index_def)
  note t = list_ignores_date_filters [where s = example_state and module = locations
        and role = emsp and filters = ?f and objs = example_locations and off = 0 and lim = 2]
  from t have e: "list example_state locations emsp ?f
      = list example_state locations emsp [(''limit'', PInt 2)]"
    by simp
  from t example_state_locations b c
  have "list example_state locations emsp ?f
      = Inr (py_slice (map snd example_locations) 0 (min (0 + 2) (int (length example_locations))),
             int (length example_locations),
             int (length example_locations) \<le> min (0 + 2) (int (length example_locations)))"
    by blast
  with l have r: "list example_state locations emsp ?f = Inr ([1, 2], 3, False)"
    by simp
  from example_state_locations b c r e show ?thesis by blast
qed

text \<open>
  Claim C8: \<open>update\<close> fails with \<open>NotFoundOCPIError\<close>, and changes nothing, when the
  module holds no object with the id; otherwise it succeeds and returns the stored
  object, which the module still holds under the id, the object's \<open>last_updated\<close> is the
  current time, and every field that the partial data does not carry (other than
  \<open>last_updated\<close>) has the value it had.
\<close>

theorem update_partial_merge:
  assumes "storage s (get_storage_key module) = Some objs"
  shows "(map_of objs (PStr obj_id) = None \<longrightarrow>
            update s module role data obj_id now = (s, Inl NotFoundOCPIError))
         \<and> (\<forall>r. map_of objs (PStr obj_id) = Some r \<longrightarrow>
              (\<exists>s'. update s module role data obj_id now = (s', Inr r)
                 \<and> get s' module role obj_id = Inr r
                 \<and> map_of (heap s' r) ''last_updated'' = Some (PStr now)
                 \<and> (\<forall>f. f \<notin> fst ` set (heap s data) \<and> f \<noteq> ''last_updated'' \<longrightarrow>
                       map_of (heap s' r) f = map_of (heap s r) f)))"
proof (intro conjI allI impI)
  assume "map_of objs (PStr obj_id) = None"
  with assms show "update s module role data obj_id now = (s, Inl NotFoundOCPIError)"
    by (simp add: update_def)
next
  fix r
  assume r: "map_of objs (PStr obj_id) = Some r"
  let ?new = "AList.update ''last_updated'' (PStr now) (dict_update (heap s r) (heap s data))"
  let ?s' = "s\<lparr>heap := (heap s)(r := ?new),
               storage := (storage s)(get_storage_key module \<mapsto>
                            AList.update (PStr obj_id) r objs)\<rparr>"
  have u: "update s module role data obj_id now = (?s', Inr r)"
    using assms r by (simp add: update_def Let_def)
  have g: "get ?s' module role obj_id = Inr r"
    by (simp add: get_def update_conv')
  have l: "map_of (heap ?s' r) ''last_updated'' = Some (PStr now)"
    by (simp add: update_conv')
  have f: "\<forall>f. f \<notin> fst ` set (heap s data) \<and> f \<noteq> ''last_updated'' \<longrightarrow>
             map_of (heap ?s' r) f = map_of (heap s r) f"
    by (simp add: update_conv' map_of_dict_update)
  from u g l f
  show "\<exists>s'. update s module role data obj_id now = (s', Inr r)
                 \<and> get s' module role obj_id = Inr r
                 \<and> map_of (heap s' r) ''last_updated'' = Some (PStr now)
                 \<and> (\<forall>f. f \<notin> fst ` set (heap s data) \<and> f \<noteq> ''last_updated'' \<longrightarrow>
                       map_of (heap s' r) f = map_of (heap s r) f)"
    by (intro exI conjI)
qed

theorem update_partial_merge_witness:
  "storage example_state (get_storage_key locations) = Some example_locations
   \<and> map_of example_locations (PStr ''LOC002'') = Some 2
   \<and> heap example_state 2 = [(''id'', PStr ''LOC002''), (''name'', PStr ''Station 2''),
                               (''last_updated'', PStr ''2024-01-02T00:00:00+00:00'')]
   \<and> ''name'' \<notin> fst ` set (heap example_state 4)
   \<and> (\<exists>s'. update example_state locations emsp 4 ''LOC002'' ''2024-02-01T00:00:00+00:00''
              = (s', Inr 2)
         \<and> get s' locations emsp ''LOC002'' = Inr 2
         \<and> map_of (heap s' 2) ''last_updated'' = Some (PStr ''2024-02-01T00:00:00+00:00'')
         \<and> map_of (heap s' 2) ''name'' = Some (PStr ''Station 2''))
   \<and> map_of example_locations (PStr ''LOC009'') = None
   \<and> update example_state locations emsp 4 ''LOC009'' ''2024-02-01T00:00:00+00:00''
       = (example_state, Inl NotFoundOCPIError)"
proof -
  note a = example_state_locations
  have b: "map_of example_locations (PStr ''LOC002'') = Some 2"
    and c: "map_of example_locations (PStr ''LOC009'') = None"
    by (simp_all add: example_locations_def)
  have h2: "heap example_state 2 = [(''id'', PStr ''LOC002''), (''name'', PStr ''Station 2''),
                               (''last_updated'', PStr ''2024-01-02T00:00:00+00:00'')]"
    and h4: "heap example_state 4 = [(''address'', PStr ''Main St 5'')]"
    by (simp_all add: example_state_def example_heap_def)
  have d: "''name'' \<notin> fst ` set (heap example_state 4)" by (simp add: h4)
  from update_partial_merge [where s = example_state and module = locations
      and objs = example_locations and obj_id = "''LOC002''" and role = emsp
      and data = 4 and now = "''2024-02-01T00:00:00+00:00''"] a b
  obtain s' where
    u: "update example_state locations emsp 4 ''LOC002'' ''2024-02-01T00:00:00+00:00''
          = (s', Inr 2)"
    and g: "get s' locations emsp ''LOC002'' = Inr 2"
    and t: "map_of (heap s' 2) ''last_updated'' = Some (PStr ''2024-02-01T00:00:00+00:00'')"
    and f: "\<forall>f. f \<notin> fst ` set (heap example_state 4) \<and> f \<noteq> ''last_updated'' \<longrightarrow>
              map_of (heap s' 2) f = map_of (heap example_state 2) f"
    by blast
  from f d have n: "map_of (heap s' 2) ''name'' = Some (PStr ''Station 2'')"
    by (simp add: h2)
  have e: "update example_state locations emsp 4 ''LOC009'' ''2024-02-01T00:00:00+00:00''
       = (example_state, Inl NotFoundOCPIError)"
    using update_partial_merge [where s = example_state and module = locations
      and objs = example_locations and obj_id = "''LOC009''" and role = emsp
      and data = 4 and now = "''2024-02-01T00:00:00+00:00''"] a c by blast
  from a b c d h2 u g t n e show ?thesis by blast
qed

text \<open>
  Claim C9: \<open>create\<close> with data whose id is the id of a stored object succeeds; the
  module then holds the supplied dict object, stamped with the current time, under that
  id in the place of the object it held, every other id of the module holds the object it
  held, and \<open>get\<close> for that id returns the supplied object. Only the supplied dict object
  is written to.
\<close>

theorem create_replaces_existing:
  assumes "storage_ok (storage s)" and "storage s (get_storage_key module) = Some objs"
    and "map_of (heap s data) ''id'' = Some k" and "k \<in> fst ` set objs"
  shows "\<exists>s' objs'.
           create s module role data uuid4 now = (s', Inr data)
           \<and> heap s' = (heap s)(data := AList.update ''last_updated'' (PStr now) (heap s data))
           \<and> storage s' = (storage s)(get_storage_key module \<mapsto> objs')
           \<and> map_of objs' k = Some data
           \<and> map fst objs' = map fst objs
           \<and> (\<forall>k'. k' \<noteq> k \<longrightarrow> map_of objs' k' = map_of objs k')
           \<and> (\<forall>i. k = PStr i \<longrightarrow> get s' module role i = Inr data)"
proof -
  let ?new = "AList.update ''last_updated'' (PStr now) (heap s data)"
  let ?objs' = "AList.update k data objs"
  let ?s' = "s\<lparr>heap := (heap s)(data := ?new),
               storage := (storage s)(get_storage_key module \<mapsto> ?objs')\<rparr>"
  from assms(1,2) have "ids_ok objs" by (simp add: storage_ok_def)
  with assms(4) have tk: "truthy k" and hk: "hashable k" by (auto simp: ids_ok_iff)
  from assms(3) tk have oid: "py_or (py_get (heap s data) ''id'' PNone) (PStr uuid4) = k"
    by (simp add: py_or_def py_get_def)
  from assms(3) have same: "AList.update ''id'' k (heap s data) = heap s data"
    by (rule update_triv)
  have r: "create s module role data uuid4 now = (?s', Inr data)"
    using assms(2) oid same hk by (simp add: create_def Let_def)
  show ?thesis
  proof (intro exI conjI)
    show "create s module role data uuid4 now = (?s', Inr data)" by (rule r)
    show "heap ?s' = (heap s)(data := ?new)" by simp
    show "storage ?s' = (storage s)(get_storage_key module \<mapsto> ?objs')" by simp
    show "map_of ?objs' k = Some data" by (simp add: update_conv')
    show "map fst ?objs' = map fst objs" using assms(4) by (rule update_keys_present)
    show "\<forall>k'. k' \<noteq> k \<longrightarrow> map_of ?objs' k' = map_of objs k'" by (simp add: update_conv')
    show "\<forall>i. k = PStr i \<longrightarrow> get ?s' module role i = Inr data"
      by (simp add: get_def update_conv')
  qed
qed

text \<open>
  The instance: \<open>update\<close> gives the stored location \<open>LOC001\<close> the id field \<open>LOC002\<close> and
  returns the stored object, at the address 1; \<open>create\<close> is then called with that object.
  Afterwards \<open>LOC001\<close> and \<open>LOC002\<close> hold the same object, stamped by \<open>create\<close>.
\<close>

theorem create_replaces_existing_witness:
  "storage_ok (storage (fst (update example_state locations emsp 6 ''LOC001''
                                ''2024-02-01T00:00:00+00:00'')))
   \<and> snd (update example_state locations emsp 6 ''LOC001'' ''2024-02-01T00:00:00+00:00'')
       = Inr 1
   \<and> storage (fst (update example_state locations emsp 6 ''LOC001''
                      ''2024-02-01T00:00:00+00:00'')) (get_storage_key locations)
       = Some example_locations
   \<and> map_of (heap (fst (update example_state locations emsp 6 ''LOC001''
                           ''2024-02-01T00:00:00+00:00'')) 1) ''id'' = Some (PStr ''LOC002'')
   \<and> PStr ''LOC002'' \<in> fst ` set example_locations
   \<and> (\<exists>s'. create (fst (update example_state locations emsp 6 ''LOC001''
                             ''2024-02-01T00:00:00+00:00''))
                locations emsp 1 ''6fa459ea-ee8a-4ca4-894e-db77e160355e''
                ''2024-03-01T00:00:00+00:00'' = (s', Inr 1)
         \<and> get s' locations emsp ''LOC002'' = Inr 1
         \<and> get s' locations emsp ''LOC001'' = Inr 1
         \<and> heap s' 1 = [(''id'', PStr ''LOC002''), (''name'', PStr ''Station 1''),
                         (''last_updated'', PStr ''2024-03-01T00:00:00+00:00'')])"
proof -
  let ?s1 = "fst (update example_state locations emsp 6 ''LOC001''
                    ''2024-02-01T00:00:00+00:00'')"
  have ok: "storage_ok (storage ?s1)"
    using example_state_ok by (rule update_storage_ok)
  have res: "snd (update example_state locations emsp 6 ''LOC001''
                    ''2024-02-01T00:00:00+00:00'') = Inr 1"
    and a: "storage ?s1 (get_storage_key locations) = Some example_locations"
    and h: "heap ?s1 1 = [(''id'', PStr ''LOC002''), (''name'', PStr ''Station 1''),
                          (''last_updated'', PStr ''2024-02-01T00:00:00+00:00'')]"
    by (simp_all add: update_def example_state_def example_heap_def example_locations_def
        dict_update_def Let_def)
  from h have b: "map_of (heap ?s1 1) ''id'' = Some (PStr ''LOC002'')" by simp
  have c: "PStr ''LOC002'' \<in> fst ` set example_locations"
    and c1: "map_of example_locations (PStr ''LOC001'') = Some 1"
    by (simp_all add: example_locations_def)
  from create_replaces_existing [where s = ?s1 and module = locations
      and objs = example_locations and k = "PStr ''LOC002''" and role = emsp and data = 1
      and ?uuid4.0 = "''6fa459ea-ee8a-4ca4-894e-db77e160355e''"
      and now = "''2024-03-01T00:00:00+00:00''"] ok a b c
  obtain s' objs' where
    r: "create ?s1 locations emsp 1 ''6fa459ea-ee8a-4ca4-894e-db77e160355e''
          ''2024-03-01T00:00:00+00:00'' = (s', Inr 1)"
    and hp: "heap s' = (heap ?s1)(1 := AList.update ''last_updated''
               (PStr ''2024-03-01T00:00:00+00:00'') (heap ?s1 1))"
    and st: "storage s' = (storage ?s1)(get_storage_key locations \<mapsto> objs')"
    and o: "\<forall>k'. k' \<noteq> PStr ''LOC002'' \<longrightarrow> map_of objs' k' = map_of example_locations k'"
    and g: "\<forall>i. PStr ''LOC002'' = PStr i \<longrightarrow> get s' locations emsp i = Inr 1"
    by blast
  from g have g2: "get s' locations emsp ''LOC002'' = Inr 1" by simp
  from o c1 have "map_of objs' (PStr ''LOC001'') = Some 1" by simp
  with st have g1: "get s' locations emsp ''LOC001'' = Inr 1" by (simp add: get_def)
  from hp h have h': "heap s' 1 = [(''id'', PStr ''LOC002''), (''name'', PStr ''Station 1''),
                         (''last_updated'', PStr ''2024-03-01T00:00:00+00:00'')]"
    by simp
  from ok res a b c r g2 g1 h' show ?thesis by blast
qed

text \<open>
  Claim C1, as stated: a send request with an invalid payload is rejected with
  InvalidCommand, and a valid one returns a result that holds a generated command id, the
  immediate result and a timeout of 30 seconds. It fails: a payload with a malformed
  response URL, an empty location id, EVSE uid and connector id and no token is accepted,
  and the result holds no command id.
\<close>

theorem send_command_counterexample:
  "do (\<lambda>a. []) commands (Some emsp) send_command
      (Some [(''response_url'', PStr ''invalid-url''), (''location_id'', PStr []),
             (''evse_uid'', PStr []), (''connector_id'', PStr [])])
      [] ''6fa459ea-ee8a-4ca4-894e-db77e160355e''
   = PDict [(''result'', PStr ''ACCEPTED''), (''timeout'', PInt 30),
            (''message'', PStr ''Command accepted for processing'')]"
  by (simp add: do_def)

text \<open>
  Claim C1, amended: \<open>do\<close> with \<open>send_command\<close> does not look at the payload. For every
  payload it returns the result \<open>ACCEPTED\<close>, the timeout 30 (the value of
  \<open>COMMAND_AWAIT_TIME\<close>) and a fixed message; the UUID it generates is not part of the
  result.
\<close>

theorem send_command_always_accepted:
  "do action_value module role send_command data kwargs uuid4
   = PDict [(''result'', PStr ''ACCEPTED''), (''timeout'', PInt COMMAND_AWAIT_TIME),
            (''message'', PStr ''Command accepted for processing'')]"
  by (simp add: do_def COMMAND_AWAIT_TIME_def)

theorem send_command_always_accepted_witness:
  "do (\<lambda>a. []) commands (Some emsp) send_command
      (Some [(''location_id'', PStr ''LOC001''), (''evse_uid'', PStr ''EVSE001''),
             (''connector_id'', PStr ''1''),
             (''token'', PDict [(''uid'', PStr ''TEST_TOKEN_001'')])])
      [] ''6fa459ea-ee8a-4ca4-894e-db77e160355e''
   = PDict [(''result'', PStr ''ACCEPTED''), (''timeout'', PInt 30),
            (''message'', PStr ''Command accepted for processing'')]"
  using send_command_always_accepted [of "\<lambda>a. []" commands "Some emsp"
      "Some [(''location_id'', PStr ''LOC001''), (''evse_uid'', PStr ''EVSE001''),
             (''connector_id'', PStr ''1''),
             (''token'', PDict [(''uid'', PStr ''TEST_TOKEN_001'')])]"
      "[]" "''6fa459ea-ee8a-4ca4-894e-db77e160355e''"]
  by (simp add: COMMAND_AWAIT_TIME_def)

text \<open>
  Claim C2, as stated: an authorize request for a token that the token lists hold is
  \<open>ALLOWED\<close> with a generated authorization reference, and one for a token that they do not
  hold is \<open>NOT_ALLOWED\<close> with an empty reference. It fails: a token that
  \<open>is_token_valid\<close> rejects is \<open>ALLOWED\<close>.
\<close>

theorem authorize_counterexample:
  "\<not> is_token_valid initial_tokens (Some ''invalid_token_xyz'')
   \<and> do (\<lambda>a. []) tokens (Some cpo) authorize_token None
        [(''token'', PStr ''invalid_token_xyz'')] ''6fa459ea-ee8a-4ca4-894e-db77e160355e''
     = PDict [(''allowed'', PStr ''ALLOWED''),
              (''authorization_info'',
               PDict [(''allowed'', PStr ''ALLOWED''),
                      (''token'', PStr ''invalid_token_xyz''),
                      (''location'', PNone)])]"
  by (simp add: do_def is_token_valid_def token_defs initial_tokens_def py_get_def)

text \<open>
  Claim C2, amended: \<open>do\<close> with \<open>authorize_token\<close> does not consult the token lists. For
  every request the decision is \<open>ALLOWED\<close>; its \<open>authorization_info\<close> repeats
  \<open>ALLOWED\<close>, the \<open>token\<close> keyword argument (\<open>unknown\<close> without one) and the
  \<open>location\<close> keyword argument (\<open>None\<close> without one); there is no authorization
  reference in the result.
\<close>

theorem authorize_always_allowed:
  "do action_value module role authorize_token data kwargs uuid4
   = PDict [(''allowed'', PStr ''ALLOWED''),
            (''authorization_info'',
             PDict [(''allowed'', PStr ''ALLOWED''),
                    (''token'', py_get kwargs ''token'' (PStr ''unknown'')),
                    (''location'', py_get kwargs ''location'' PNone)])]"
  by (simp add: do_def)

theorem authorize_always_allowed_witness:
  "is_token_valid initial_tokens (Some ''emsp_token_a_12345'')
   \<and> do (\<lambda>a. []) tokens (Some cpo) authorize_token None
        [(''token'', PStr ''emsp_token_a_12345''), (''location'', PStr ''LOC001'')]
        ''6fa459ea-ee8a-4ca4-894e-db77e160355e''
     = PDict [(''allowed'', PStr ''ALLOWED''),
              (''authorization_info'',
               PDict [(''allowed'', PStr ''ALLOWED''),
                      (''token'', PStr ''emsp_token_a_12345''),
                      (''location'', PStr ''LOC001'')])]"
  using authorize_always_allowed [of "\<lambda>a. []" tokens "Some cpo" None
      "[(''token'', PStr ''emsp_token_a_12345''), (''location'', PStr ''LOC001'')]"
      "''6fa459ea-ee8a-4ca4-894e-db77e160355e''"]
  by (simp add: py_get_def is_token_valid_def token_defs initial_tokens_def)

end
